theory Spec2Isabelle
  imports Main "HOL-Library.Product_Lexorder"
begin

section \<open>Job store\<close>

text \<open>
  The table \<open>jobs\<close> (alembic migration \<open>f3a80389152c\<close>) and the ORM class \<open>Job\<close> the
  routers and the orchestration service work on. Timestamps are seconds on one clock
  (\<open>int\<close>); each handler reads the clock once (\<open>now\<close>). JSON documents are association
  lists of strings; nullable columns are options.

  The class \<open>app.models.job.Job\<close> itself is not among the sources, so whether it has an
  attribute \<open>target\<close> (the routers ask \<open>hasattr(Job, "target")\<close>) and which values the
  enum \<open>JobKind\<close> has are parameters of the functions below (\<open>has_target\<close>, \<open>JobKind\<close>).
  A column changes only where a handler assigns it, as in the migration, which gives
  \<open>updated_at\<close> a default on insert and nothing on update.

  The handlers run one after the other: each sees the table the previous one committed,
  and no row is locked by another transaction when a claim reads it
  (\<open>with_for_update(skip_locked=True)\<close> skips nothing). The database itself does not fail.
\<close>

datatype JobStatus = QUEUED | RUNNING | COMPLETED | FAILED | CANCELLED

type_synonym datetime = int
type_synonym json = "(string \<times> string) list"

record Job =
  job_id :: int
  user_id :: int
  kind :: string
  target :: "string option"
  payload_json :: json
  status :: JobStatus
  result_json :: "json option"
  error_message :: "string option"
  priority :: int
  reserved_by :: "string option"
  reserved_at :: "datetime option"
  retries :: int
  created_at :: datetime
  updated_at :: datetime
  started_at :: "datetime option"
  completed_at :: "datetime option"

text \<open>\<open>db.query(Job).get(job_id)\<close>: the row with that primary key, or \<open>None\<close>.\<close>

definition query_get :: "Job list \<Rightarrow> int \<Rightarrow> Job option" where
  "query_get db i = find (\<lambda>j. job_id j = i) db"

text \<open>\<open>db.commit()\<close> after the attributes of one loaded row were assigned: the row with
  that primary key is written back, every other row is as it was.\<close>

definition commit :: "Job list \<Rightarrow> Job \<Rightarrow> Job list" where
  "commit db job = map (\<lambda>j. if job_id j = job_id job then job else j) db"

text \<open>\<open>.order_by(Job.priority.desc(), Job.created_at.asc())\<close>, a stable sort of the rows
  the filters kept, and \<open>.first()\<close>.\<close>

definition order_by :: "Job list \<Rightarrow> Job list" where
  "order_by rows = sort_key (\<lambda>j. (- priority j, created_at j)) rows"

definition first :: "Job list \<Rightarrow> Job option" where
  "first rows = (case rows of [] \<Rightarrow> None | j # _ \<Rightarrow> Some j)"

section \<open>Worker endpoints (routers/workers.py)\<close>

datatype HTTPException = HTTP_404_NOT_FOUND | HTTP_403_FORBIDDEN

datatype response = JobClaimResponse Job | HTTP_204_NO_CONTENT | Available int

text \<open>The filters of \<open>claim_job\<close> and \<open>claim_dryrun\<close>:
  \<open>Job.status == QUEUED\<close> and
  \<open>getattr(Job, "target", None) == target if hasattr(Job, "target") else True\<close>.\<close>

definition claimable :: "bool \<Rightarrow> string \<Rightarrow> Job \<Rightarrow> bool" where
  "claimable has_target tgt j =
     (status j = QUEUED \<and> (if has_target then target j = Some tgt else True))"

definition claim_job ::
  "bool \<Rightarrow> datetime \<Rightarrow> string \<Rightarrow> string \<Rightarrow> Job list \<Rightarrow> (HTTPException + response) \<times> Job list" where
  "claim_job has_target now worker_id tgt db =
     (case first (order_by (filter (claimable has_target tgt) db)) of
        None \<Rightarrow> (Inr HTTP_204_NO_CONTENT, db)
      | Some job \<Rightarrow>
          let job' = job\<lparr>status := RUNNING, reserved_by := Some worker_id,
                         reserved_at := Some now, started_at := Some now\<rparr>
          in (Inr (JobClaimResponse job'), commit db job'))"

definition mark_done ::
  "datetime \<Rightarrow> int \<Rightarrow> string \<Rightarrow> json \<Rightarrow> Job list \<Rightarrow> (HTTPException + response) \<times> Job list" where
  "mark_done now i worker_id body_result_json db =
     (case query_get db i of
        None \<Rightarrow> (Inl HTTP_404_NOT_FOUND, db)
      | Some job \<Rightarrow>
          if reserved_by job \<noteq> Some worker_id then (Inl HTTP_403_FORBIDDEN, db)
          else (Inr HTTP_204_NO_CONTENT,
                commit db (job\<lparr>status := COMPLETED, result_json := Some body_result_json,
                                error_message := None, completed_at := Some now\<rparr>)))"

text \<open>\<open>(job.retries or 0) + 1\<close>: the column is an integer, and \<open>0 or 0\<close> is \<open>0\<close>.\<close>

definition mark_fail ::
  "datetime \<Rightarrow> int \<Rightarrow> string \<Rightarrow> string \<Rightarrow> Job list \<Rightarrow> (HTTPException + response) \<times> Job list" where
  "mark_fail now i worker_id body_error_message db =
     (case query_get db i of
        None \<Rightarrow> (Inl HTTP_404_NOT_FOUND, db)
      | Some job \<Rightarrow>
          if reserved_by job \<noteq> Some worker_id then (Inl HTTP_403_FORBIDDEN, db)
          else (Inr HTTP_204_NO_CONTENT,
                commit db (job\<lparr>status := FAILED, error_message := Some body_error_message,
                                completed_at := Some now,
                                retries := (if retries job \<noteq> 0 then retries job else 0) + 1\<rparr>)))"

definition claim_dryrun ::
  "bool \<Rightarrow> string \<Rightarrow> Job list \<Rightarrow> (HTTPException + response) \<times> Job list" where
  "claim_dryrun has_target tgt db =
     (case first (order_by (filter (claimable has_target tgt) db)) of
        Some job \<Rightarrow> (Inr (Available (job_id job)), db)
      | None \<Rightarrow> (Inr HTTP_204_NO_CONTENT, db))"

definition job_heartbeat ::
  "datetime \<Rightarrow> int \<Rightarrow> string \<Rightarrow> Job list \<Rightarrow> (HTTPException + response) \<times> Job list" where
  "job_heartbeat now i worker_id db =
     (case query_get db i of
        None \<Rightarrow> (Inl HTTP_404_NOT_FOUND, db)
      | Some job \<Rightarrow>
          if reserved_by job \<noteq> Some worker_id then (Inl HTTP_403_FORBIDDEN, db)
          else (Inr HTTP_204_NO_CONTENT, commit db (job\<lparr>updated_at := now\<rparr>)))"

section \<open>Orchestration service (services/job_orchestration.py)\<close>

text \<open>
  \<open>JobOrchestrationService.claim_job\<close>: one SQL statement that selects a queued row of
  one of the requested kinds (\<open>job_kinds or [kind.value for kind in JobKind]\<close>), ordered
  by priority and age, and updates it; the method then loads the row and returns it.
  It never calls \<open>self.db.commit()\<close>: the session is made with \<open>autocommit=False\<close>
  and closed by \<open>get_db\<close> when the request ends, which rolls the update back. So the
  caller gets the row as reserved, and the table the next handler sees is the table
  as it was. The statement is taken to execute; the \<open>except\<close> branch, which logs and
  returns \<open>None\<close>, is a failure of the database.
\<close>

definition JobOrchestrationService_claim_job ::
  "string list \<Rightarrow> datetime \<Rightarrow> string \<Rightarrow> string list option \<Rightarrow> Job list \<Rightarrow> Job option \<times> Job list" where
  "JobOrchestrationService_claim_job JobKind now worker_id job_kinds db =
     (let kinds = (case job_kinds of None \<Rightarrow> JobKind | Some [] \<Rightarrow> JobKind | Some ks \<Rightarrow> ks)
      in case first (order_by (filter (\<lambda>j. status j = QUEUED \<and> kind j \<in> set kinds) db)) of
           None \<Rightarrow> (None, db)
         | Some row \<Rightarrow>
             let job = row\<lparr>status := RUNNING, reserved_by := Some worker_id,
                           reserved_at := Some now, started_at := Some now,
                           updated_at := now\<rparr>
             in (Some job, db))"

definition is_valid_status_transition :: "JobStatus \<Rightarrow> JobStatus \<Rightarrow> bool" where
  "is_valid_status_transition current new =
     (new \<in> set (case current of
                   QUEUED \<Rightarrow> [RUNNING, CANCELLED]
                 | RUNNING \<Rightarrow> [COMPLETED, FAILED, CANCELLED]
                 | COMPLETED \<Rightarrow> []
                 | FAILED \<Rightarrow> [QUEUED]
                 | CANCELLED \<Rightarrow> []))"

text \<open>Python's truth value of an optional dict and of an optional string.\<close>

definition truthy :: "'a list option \<Rightarrow> bool" where
  "truthy v = (case v of None \<Rightarrow> False | Some xs \<Rightarrow> xs \<noteq> [])"

text \<open>The block under \<open># Update job\<close>: the assignments to the loaded row once the
  worker and the transition were accepted.\<close>

definition update_job ::
  "datetime \<Rightarrow> JobStatus \<Rightarrow> json option \<Rightarrow> string option \<Rightarrow> Job \<Rightarrow> Job" where
  "update_job now new_status result_data error_msg job =
     (let job1 = job\<lparr>status := new_status, updated_at := now\<rparr>
      in if new_status = COMPLETED then
           (let job2 = job1\<lparr>completed_at := Some now\<rparr>
            in if truthy result_data then job2\<lparr>result_json := result_data\<rparr> else job2)
         else if new_status = FAILED then
           (let job2 = job1\<lparr>completed_at := Some now\<rparr>;
                job3 = (if truthy error_msg then job2\<lparr>error_message := error_msg\<rparr>
                        else job2);
                job4 = job3\<lparr>retries := retries job3 + 1\<rparr>
            in if retries job4 \<ge> 3 then job4\<lparr>status := FAILED\<rparr>
               else job4\<lparr>status := QUEUED, reserved_by := None, reserved_at := None\<rparr>)
         else job1)"

definition update_job_status ::
  "datetime \<Rightarrow> int \<Rightarrow> JobStatus \<Rightarrow> string \<Rightarrow> json option \<Rightarrow> string option \<Rightarrow> Job list
     \<Rightarrow> bool \<times> Job list" where
  "update_job_status now i new_status worker_id result_data error_msg db =
     (case query_get db i of
        None \<Rightarrow> (False, db)
      | Some job \<Rightarrow>
          if reserved_by job \<noteq> Some worker_id then (False, db)
          else if \<not> is_valid_status_transition (status job) new_status then (False, db)
          else (True, commit db (update_job now new_status result_data error_msg job)))"

text \<open>
  \<open>requeue_stuck_jobs\<close>: the rows the query selects are
  \<open>Job.status == RUNNING\<close> and \<open>Job.reserved_at < timeout_threshold\<close> (a comparison with
  a NULL \<open>reserved_at\<close> selects nothing); the loop assigns their attributes and one
  commit writes them back. \<open>timedelta(minutes=m)\<close> is \<open>60 * m\<close> seconds.
\<close>

definition stuck :: "datetime \<Rightarrow> Job \<Rightarrow> bool" where
  "stuck timeout_threshold j =
     (status j = RUNNING \<and>
      (case reserved_at j of None \<Rightarrow> False | Some t \<Rightarrow> t < timeout_threshold))"

definition requeue :: "datetime \<Rightarrow> Job \<Rightarrow> Job" where
  "requeue now job =
     (let job1 = job\<lparr>status := QUEUED, reserved_by := None, reserved_at := None,
                      retries := retries job + 1, updated_at := now\<rparr>
      in if retries job1 \<ge> 3
         then job1\<lparr>status := FAILED, completed_at := Some now,
                    error_message := Some ''Job timed out after multiple retries''\<rparr>
         else job1)"

definition requeue_stuck_jobs :: "datetime \<Rightarrow> int \<Rightarrow> Job list \<Rightarrow> int \<times> Job list" where
  "requeue_stuck_jobs now timeout_minutes db =
     (let timeout_threshold = now - 60 * timeout_minutes;
          stuck_jobs = filter (stuck timeout_threshold) db
      in (int (length stuck_jobs),
          map (\<lambda>j. if stuck timeout_threshold j then requeue now j else j) db))"

section \<open>Operations of the core on the job store\<close>

datatype operation =
    Claim string string
  | Done int string json
  | Fail int string string
  | ClaimDryrun string
  | Heartbeat int string
  | ServiceClaim string "string list option"
  | UpdateStatus int JobStatus string "json option" "string option"
  | Sweep int

fun run :: "bool \<Rightarrow> string list \<Rightarrow> datetime \<Rightarrow> operation \<Rightarrow> Job list \<Rightarrow> Job list" where
  "run has_target JobKind now (Claim w tgt) db = snd (claim_job has_target now w tgt db)"
| "run has_target JobKind now (Done i w r) db = snd (mark_done now i w r db)"
| "run has_target JobKind now (Fail i w e) db = snd (mark_fail now i w e db)"
| "run has_target JobKind now (ClaimDryrun tgt) db = snd (claim_dryrun has_target tgt db)"
| "run has_target JobKind now (Heartbeat i w) db = snd (job_heartbeat now i w db)"
| "run has_target JobKind now (ServiceClaim w ks) db =
     snd (JobOrchestrationService_claim_job JobKind now w ks db)"
| "run has_target JobKind now (UpdateStatus i st w r e) db =
     snd (update_job_status now i st w r e db)"
| "run has_target JobKind now (Sweep m) db = snd (requeue_stuck_jobs now m db)"



section \<open>Fleet controller (services/vast_service.py)\<close>

text \<open>
  The controller talks to the rental provider over HTTP and keeps the id of the active
  instance under one Redis key. A request either raises (\<open>Raised\<close>: no connection, a
  timeout) or returns a status code and a body; the body is \<open>None\<close> when \<open>r.json()\<close>
  or \<open>data.get\<close> would raise (it is not a JSON object), and an object with string
  fields otherwise (\<open>data.get(k)\<close> is \<open>None\<close> for an absent or null field). Every
  \<open>except Exception\<close> of the module catches whatever was raised, so one value \<open>Raised\<close>
  stands for all of it. The provider is a function from the request sent to
  what comes back. The state threaded through the calls is the Redis key, the requests
  sent so far and the events logged so far.
\<close>

record settings =
  VAST_AI_API_KEY :: string
  GPU_IDLE_TIMEOUT_SEC :: int
  STOP_MODE :: string

datatype request =
    GET_instance string
  | POST_instances
  | POST_stop string
  | DELETE_instance string

datatype http_result = Raised | Response int "json option"

type_synonym provider = "request \<Rightarrow> http_result"

datatype level = INFO | WARN | ERROR

record fleet =
  active_instance_id :: "string option"
  requests :: "request list"
  log :: "(level \<times> string) list"

definition send :: "request \<Rightarrow> fleet \<Rightarrow> fleet" where
  "send rq fl = fl\<lparr>requests := requests fl @ [rq]\<rparr>"

definition logger :: "level \<Rightarrow> string \<Rightarrow> fleet \<Rightarrow> fleet" where
  "logger lv event fl = fl\<lparr>log := log fl @ [(lv, event)]\<rparr>"

text \<open>\<open>a or b\<close>, \<open>str(v)\<close>, \<open>s.lower()\<close> (ASCII) and \<open>sub in s\<close>.\<close>

definition por :: "'a list option \<Rightarrow> 'a list option \<Rightarrow> 'a list option" where
  "por a b = (if truthy a then a else b)"

definition str :: "string option \<Rightarrow> string" where
  "str v = (case v of None \<Rightarrow> ''None'' | Some s \<Rightarrow> s)"

definition lower_char :: "char \<Rightarrow> char" where
  "lower_char c =
     (case map_of (zip ''ABCDEFGHIJKLMNOPQRSTUVWXYZ'' ''abcdefghijklmnopqrstuvwxyz'') c of
        None \<Rightarrow> c
      | Some l \<Rightarrow> l)"

definition lower :: "string \<Rightarrow> string" where
  "lower s = map lower_char s"

fun contains :: "string \<Rightarrow> string \<Rightarrow> bool" where
  "contains sub [] = (sub = [])"
| "contains sub (c # cs) = (take (length sub) (c # cs) = sub \<or> contains sub cs)"

text \<open>\<open>_headers\<close>: \<open>None\<close> is the \<open>RuntimeError\<close> raised when no API key is configured.\<close>

definition headers :: "settings \<Rightarrow> (string \<times> string) list option" where
  "headers cfg =
     (if VAST_AI_API_KEY cfg = [] then None
      else Some [(''Authorization'', ''Bearer '' @ VAST_AI_API_KEY cfg)])"

definition get_active_instance_id :: "fleet \<Rightarrow> string option" where
  "get_active_instance_id fl = active_instance_id fl"

definition set_active_instance_id :: "string option \<Rightarrow> fleet \<Rightarrow> fleet" where
  "set_active_instance_id instance_id fl =
     (if truthy instance_id then fl\<lparr>active_instance_id := instance_id\<rparr>
      else fl\<lparr>active_instance_id := None\<rparr>)"

definition is_instance_running :: "settings \<Rightarrow> provider \<Rightarrow> string \<Rightarrow> fleet \<Rightarrow> bool \<times> fleet" where
  "is_instance_running cfg vast instance_id fl =
     (case headers cfg of
        None \<Rightarrow> (False, logger WARN ''vast_is_running_check_failed'' fl)
      | Some h \<Rightarrow>
          (let fl1 = send (GET_instance instance_id) fl
           in (case vast (GET_instance instance_id) of
                 Raised \<Rightarrow> (False, logger WARN ''vast_is_running_check_failed'' fl1)
               | Response status_code body \<Rightarrow>
                   (if status_code \<noteq> 200 then (False, fl1)
                    else (case body of
                            None \<Rightarrow> (False, logger WARN ''vast_is_running_check_failed'' fl1)
                          | Some data \<Rightarrow>
                              (let state = lower (str (por (por (map_of data ''state'')
                                                                (map_of data ''status''))
                                                           (Some [])))
                               in (contains ''run'' state, fl1)))))))"

text \<open>\<open>r.raise_for_status()\<close> raises unless the status code is a 2xx.\<close>

definition raise_for_status :: "int \<Rightarrow> bool" where
  "raise_for_status status_code = (\<not> (200 \<le> status_code \<and> status_code < 300))"

definition ensure_gpu_instance :: "settings \<Rightarrow> provider \<Rightarrow> fleet \<Rightarrow> string option \<times> fleet" where
  "ensure_gpu_instance cfg vast fl =
     (let existing = get_active_instance_id fl;
          (running, fl1) = (case existing of
                              None \<Rightarrow> (False, fl)
                            | Some i \<Rightarrow> (if i = [] then (False, fl)
                                         else is_instance_running cfg vast i fl))
      in if running then (existing, logger INFO ''vast_instance_already_running'' fl1)
         else (case headers cfg of
                 None \<Rightarrow> (None, logger ERROR ''vast_ensure_failed'' fl1)
               | Some h \<Rightarrow>
                   (let fl2 = send POST_instances fl1
                    in (case vast POST_instances of
                          Raised \<Rightarrow> (None, logger ERROR ''vast_ensure_failed'' fl2)
                        | Response status_code body \<Rightarrow>
                            (if raise_for_status status_code
                             then (None, logger ERROR ''vast_ensure_failed'' fl2)
                             else (case body of
                                     None \<Rightarrow> (None, logger ERROR ''vast_ensure_failed'' fl2)
                                   | Some data \<Rightarrow>
                                       (let instance_id = str (por (map_of data ''id'')
                                                                   (map_of data ''instance_id''))
                                        in if instance_id = []
                                           then (None, logger ERROR ''vast_create_no_id'' fl2)
                                           else (Some instance_id,
                                                 logger INFO ''vast_instance_started''
                                                   (set_active_instance_id (Some instance_id)
                                                      fl2)))))))))"

definition stop_instance :: "settings \<Rightarrow> provider \<Rightarrow> string \<Rightarrow> fleet \<Rightarrow> bool \<times> fleet" where
  "stop_instance cfg vast instance_id fl =
     (case headers cfg of
        None \<Rightarrow> (False, logger ERROR ''vast_stop_exception'' fl)
      | Some h \<Rightarrow>
          (let fl1 = send (POST_stop instance_id) fl
           in (case vast (POST_stop instance_id) of
                 Raised \<Rightarrow> (False, logger ERROR ''vast_stop_exception'' fl1)
               | Response status_code body \<Rightarrow>
                   (if status_code \<in> {200, 202, 204}
                    then (True, set_active_instance_id None
                                  (logger INFO ''vast_instance_stopped'' fl1))
                    else (False, logger ERROR ''vast_stop_failed'' fl1)))))"

definition destroy_instance :: "settings \<Rightarrow> provider \<Rightarrow> string \<Rightarrow> fleet \<Rightarrow> bool \<times> fleet" where
  "destroy_instance cfg vast instance_id fl =
     (case headers cfg of
        None \<Rightarrow> (False, logger ERROR ''vast_destroy_exception'' fl)
      | Some h \<Rightarrow>
          (let fl1 = send (DELETE_instance instance_id) fl
           in (case vast (DELETE_instance instance_id) of
                 Raised \<Rightarrow> (False, logger ERROR ''vast_destroy_exception'' fl1)
               | Response status_code body \<Rightarrow>
                   (if status_code \<in> {200, 202, 204}
                    then (True, set_active_instance_id None
                                  (logger INFO ''vast_instance_destroyed'' fl1))
                    else (False, logger ERROR ''vast_destroy_failed'' fl1)))))"

text \<open>\<open>maybe_shutdown_gpu\<close> returns nothing; what \<open>stop_instance\<close> or
  \<open>destroy_instance\<close> returned is dropped.\<close>

definition maybe_shutdown_gpu :: "settings \<Rightarrow> provider \<Rightarrow> int \<Rightarrow> fleet \<Rightarrow> fleet" where
  "maybe_shutdown_gpu cfg vast idle_seconds fl =
     (case get_active_instance_id fl of
        None \<Rightarrow> fl
      | Some instance_id \<Rightarrow>
          if instance_id = [] then fl
          else if idle_seconds <
                    (if GPU_IDLE_TIMEOUT_SEC cfg \<noteq> 0 then GPU_IDLE_TIMEOUT_SEC cfg else 180)
          then fl
          else if lower (if STOP_MODE cfg \<noteq> [] then STOP_MODE cfg else ''stop'') = ''destroy''
          then snd (destroy_instance cfg vast instance_id fl)
          else snd (stop_instance cfg vast instance_id fl))"

section \<open>Example rows and providers\<close>

definition job_A :: Job where
  "job_A = \<lparr>job_id = 1, user_id = 7, kind = ''generate_image'', target = Some ''gpu'',
            payload_json = [], status = QUEUED, result_json = None, error_message = None,
            priority = 5, reserved_by = None, reserved_at = None, retries = 0,
            created_at = 100, updated_at = 100, started_at = None, completed_at = None\<rparr>"

definition job_B :: Job where
  "job_B = job_A\<lparr>job_id := 2, priority := 9, created_at := 150, updated_at := 150\<rparr>"

text \<open>Job A after worker \<open>w1\<close> claimed it at time 0.\<close>

definition job_A_running :: Job where
  "job_A_running = job_A\<lparr>status := RUNNING, reserved_by := Some ''w1'',
                          reserved_at := Some 0, started_at := Some 0\<rparr>"


definition cfg0 :: settings where
  "cfg0 = \<lparr>VAST_AI_API_KEY = ''key'', GPU_IDLE_TIMEOUT_SEC = 180, STOP_MODE = ''stop''\<rparr>"

definition fleet_X :: fleet where
  "fleet_X = \<lparr>active_instance_id = Some ''X'', requests = [], log = []\<rparr>"


fun vast_healthy :: provider where
  "vast_healthy (GET_instance i) = Response 200 (Some [(''state'', ''Running'')])"
| "vast_healthy POST_instances = Response 500 None"
| "vast_healthy (POST_stop i) = Raised"
| "vast_healthy (DELETE_instance i) = Raised"


section \<open>Queries and commits\<close>

lemma first_order_by_None: "first (order_by rows) = None \<longleftrightarrow> rows = []"
proof -
  have "order_by rows = [] \<longleftrightarrow> rows = []"
    unfolding order_by_def by (metis length_sort length_0_conv)
  then show ?thesis by (cases "order_by rows") (auto simp: first_def)
qed

lemma first_order_by_Some:
  assumes "first (order_by rows) = Some j"
  shows "j \<in> set rows"
    and "\<forall>k\<in>set rows. priority k \<le> priority j \<and>
           (priority k = priority j \<longrightarrow> created_at j \<le> created_at k)"
proof -
  let ?key = "\<lambda>j. (- priority j, created_at j)"
  from assms obtain js where srt: "sort_key ?key rows = j # js"
    by (auto simp: first_def order_by_def split: list.splits)
  have same: "set (sort_key ?key rows) = set rows" by simp
  with srt show "j \<in> set rows" by (metis list.set_intros(1))
  have "sorted (map ?key (sort_key ?key rows))" by (rule sorted_sort_key)
  with srt have "\<forall>k\<in>set js. ?key j \<le> ?key k" by simp
  moreover have "set rows = insert j (set js)" using srt same by (metis list.simps(15))
  ultimately have "\<forall>k\<in>set rows. ?key j \<le> ?key k" by auto
  then show "\<forall>k\<in>set rows. priority k \<le> priority j \<and>
               (priority k = priority j \<longrightarrow> created_at j \<le> created_at k)"
    by (auto simp: less_eq_prod_def)
qed

text \<open>What filter, order and \<open>first()\<close> select, for any filter \<open>P\<close>: nothing when no row
  passes the filter, and otherwise a row that passes it and that no other such row
  beats on priority, or on age at the same priority.\<close>

lemma select_first:
  "(case first (order_by (filter P db)) of
      None \<Rightarrow> \<forall>k\<in>set db. \<not> P k
    | Some job \<Rightarrow> job \<in> set db \<and> P job \<and>
        (\<forall>k\<in>set db. P k \<longrightarrow>
           priority k \<le> priority job \<and>
           (priority k = priority job \<longrightarrow> created_at job \<le> created_at k)))"
proof (cases "first (order_by (filter P db))")
  case None
  then have "filter P db = []" by (simp add: first_order_by_None)
  then show ?thesis using None by (simp add: filter_empty_conv)
next
  case (Some job)
  from first_order_by_Some[OF Some] show ?thesis using Some by auto
qed

lemma query_get_Some: "query_get db i = Some job \<Longrightarrow> job \<in> set db \<and> job_id job = i"
  unfolding query_get_def by (induction db) (auto split: if_splits)

lemma query_get_commit:
  "query_get db i = Some job \<Longrightarrow> job_id job' = job_id job \<Longrightarrow>
   query_get (commit db job') i = Some job'"
  unfolding query_get_def commit_def
  by (induction db) (auto split: if_splits)

text \<open>With \<open>id\<close> the primary key, a commit changes the one row it was loaded from.\<close>

lemma commit_rows:
  assumes "distinct (map job_id db)" and "job \<in> set db" and "job_id job' = job_id job"
    and "R job job'" and "\<And>j. R j j"
  shows "list_all2 R db (commit db job')"
proof -
  have "\<forall>j\<in>set db. R j (if job_id j = job_id job' then job' else j)"
  proof
    fix j assume j: "j \<in> set db"
    show "R j (if job_id j = job_id job' then job' else j)"
    proof (cases "job_id j = job_id job'")
      case True
      with assms(1,2,3) j have "j = job" by (simp add: distinct_map inj_on_def)
      with True assms(4) show ?thesis by simp
    next
      case False
      with assms(5) show ?thesis by simp
    qed
  qed
  then show ?thesis
    unfolding commit_def by (simp add: list_all2_map2 list_all2_same)
qed

section \<open>Claiming\<close>

text \<open>
  C4. A claim with no claimable row (none queued, or none of the target asked for)
  answers 204 and changes nothing: no exception is raised on that path, and the
  handler has no logging statement at all. Otherwise
  it reserves and returns a claimable row, one that was queued and matched the target
  filter, such that no claimable row has a higher priority and none of the same
  priority is older.
\<close>

theorem claim_job_highest_priority_oldest:
  "((\<forall>k\<in>set db. \<not> claimable has_target tgt k) \<longrightarrow>
      claim_job has_target now worker_id tgt db = (Inr HTTP_204_NO_CONTENT, db))
   \<and> ((\<exists>k\<in>set db. claimable has_target tgt k) \<longrightarrow>
      (\<exists>job\<in>set db. claimable has_target tgt job
         \<and> (\<forall>k\<in>set db. claimable has_target tgt k \<longrightarrow>
               priority k \<le> priority job \<and>
               (priority k = priority job \<longrightarrow> created_at job \<le> created_at k))
         \<and> claim_job has_target now worker_id tgt db =
             (Inr (JobClaimResponse
                     (job\<lparr>status := RUNNING, reserved_by := Some worker_id,
                           reserved_at := Some now, started_at := Some now\<rparr>)),
              commit db (job\<lparr>status := RUNNING, reserved_by := Some worker_id,
                               reserved_at := Some now, started_at := Some now\<rparr>))))"
  using select_first[where P = "claimable has_target tgt" and db = db]
  by (cases "first (order_by (filter (claimable has_target tgt) db))")
     (auto simp: claim_job_def Let_def)

text \<open>Job A (priority 5) was enqueued before job B (priority 9): a claim for the GPU
  target returns B, and a claim for a target no job has answers 204.\<close>

theorem claim_job_highest_priority_oldest_witness:
  "(\<exists>k\<in>set [job_A, job_B]. claimable True ''gpu'' k)
   \<and> \<not> (\<exists>k\<in>set [job_A, job_B]. claimable True ''cpu'' k)
   \<and> fst (claim_job True 200 ''w1'' ''gpu'' [job_A, job_B]) =
       Inr (JobClaimResponse (job_B\<lparr>status := RUNNING, reserved_by := Some ''w1'',
                                    reserved_at := Some 200, started_at := Some 200\<rparr>))
   \<and> claim_job True 200 ''w1'' ''cpu'' [job_A, job_B] =
       (Inr HTTP_204_NO_CONTENT, [job_A, job_B])"
proof -
  have some: "\<exists>k\<in>set [job_A, job_B]. claimable True ''gpu'' k"
    by (simp add: claimable_def job_A_def)
  have none: "\<forall>k\<in>set [job_A, job_B]. \<not> claimable True ''cpu'' k"
    by (simp add: claimable_def job_A_def job_B_def)
  from some claim_job_highest_priority_oldest[of "[job_A, job_B]" True "''gpu''" 200 "''w1''"]
  obtain job where job: "job \<in> set [job_A, job_B]"
      "\<forall>k\<in>set [job_A, job_B]. claimable True ''gpu'' k \<longrightarrow> priority k \<le> priority job"
      "claim_job True 200 ''w1'' ''gpu'' [job_A, job_B] =
         (Inr (JobClaimResponse
                 (job\<lparr>status := RUNNING, reserved_by := Some ''w1'',
                       reserved_at := Some 200, started_at := Some 200\<rparr>)),
          commit [job_A, job_B]
            (job\<lparr>status := RUNNING, reserved_by := Some ''w1'',
                  reserved_at := Some 200, started_at := Some 200\<rparr>))"
    by blast
  from job(2) have "priority job_B \<le> priority job"
    by (simp add: claimable_def job_A_def job_B_def)
  with job(1) have "job = job_B" by (auto simp: job_A_def job_B_def)
  with job(3) have "fst (claim_job True 200 ''w1'' ''gpu'' [job_A, job_B]) =
       Inr (JobClaimResponse (job_B\<lparr>status := RUNNING, reserved_by := Some ''w1'',
                                    reserved_at := Some 200, started_at := Some 200\<rparr>))"
    by simp
  moreover from none claim_job_highest_priority_oldest[of "[job_A, job_B]" True "''cpu''" 200 "''w1''"]
  have "claim_job True 200 ''w1'' ''cpu'' [job_A, job_B] = (Inr HTTP_204_NO_CONTENT, [job_A, job_B])"
    by blast
  ultimately show ?thesis using some none by blast
qed

text \<open>The service's claim selects by the same order among the queued rows of the
  kinds asked for (all of \<open>JobKind\<close> when none are given), returns the row with
  \<open>updated_at\<close> stamped as well, and commits nothing.\<close>

lemma JobOrchestrationService_claim_job_selects:
  assumes "kinds = (case job_kinds of None \<Rightarrow> JobKind | Some [] \<Rightarrow> JobKind | Some ks \<Rightarrow> ks)"
  shows "(case JobOrchestrationService_claim_job JobKind now worker_id job_kinds db of
            (None, db') \<Rightarrow> db' = db \<and> (\<forall>k\<in>set db. \<not> (status k = QUEUED \<and> kind k \<in> set kinds))
          | (Some job', db') \<Rightarrow>
              (\<exists>job\<in>set db. status job = QUEUED \<and> kind job \<in> set kinds
                 \<and> (\<forall>k\<in>set db. status k = QUEUED \<and> kind k \<in> set kinds \<longrightarrow>
                       priority k \<le> priority job \<and>
                       (priority k = priority job \<longrightarrow> created_at job \<le> created_at k))
                 \<and> job' = job\<lparr>status := RUNNING, reserved_by := Some worker_id,
                                reserved_at := Some now, started_at := Some now,
                                updated_at := now\<rparr>
                 \<and> db' = db))"
  using select_first[where P = "\<lambda>j. status j = QUEUED \<and> kind j \<in> set kinds" and db = db] assms
  by (cases "first (order_by (filter (\<lambda>j. status j = QUEUED \<and> kind j \<in> set kinds) db))")
     (auto simp: JobOrchestrationService_claim_job_def Let_def)

text \<open>
  C10. The dry run writes nothing: the table after the call is the table before it.
  With no claimable row it answers 204; otherwise it answers with the id of a claimable
  row, the one a claim made at that moment would reserve.
\<close>

theorem claim_dryrun_reads_only:
  "snd (claim_dryrun has_target tgt db) = db
   \<and> ((\<forall>k\<in>set db. \<not> claimable has_target tgt k) \<longrightarrow>
        fst (claim_dryrun has_target tgt db) = Inr HTTP_204_NO_CONTENT)
   \<and> ((\<exists>k\<in>set db. claimable has_target tgt k) \<longrightarrow>
        (\<exists>job\<in>set db. claimable has_target tgt job
           \<and> fst (claim_dryrun has_target tgt db) = Inr (Available (job_id job))
           \<and> (\<exists>job'. fst (claim_job has_target now worker_id tgt db) =
                         Inr (JobClaimResponse job')
                     \<and> job_id job' = job_id job)))"
  using select_first[where P = "claimable has_target tgt" and db = db]
  by (cases "first (order_by (filter (claimable has_target tgt) db))")
     (auto simp: claim_dryrun_def claim_job_def Let_def)

theorem claim_dryrun_reads_only_witness:
  "(\<exists>k\<in>set [job_A, job_B]. claimable True ''gpu'' k)
   \<and> claim_dryrun True ''gpu'' [job_A, job_B] = (Inr (Available 2), [job_A, job_B])"
proof -
  have some: "\<exists>k\<in>set [job_A, job_B]. claimable True ''gpu'' k"
    by (simp add: claimable_def job_A_def)
  from some claim_dryrun_reads_only[of True "''gpu''" "[job_A, job_B]" 200 "''w1''"]
  obtain job job' where job: "job \<in> set [job_A, job_B]"
      "fst (claim_dryrun True ''gpu'' [job_A, job_B]) = Inr (Available (job_id job))"
      "fst (claim_job True 200 ''w1'' ''gpu'' [job_A, job_B]) = Inr (JobClaimResponse job')"
      "job_id job' = job_id job"
      and unchanged: "snd (claim_dryrun True ''gpu'' [job_A, job_B]) = [job_A, job_B]"
    by blast
  have "fst (claim_job True 200 ''w1'' ''gpu'' [job_A, job_B]) =
          Inr (JobClaimResponse (job_B\<lparr>status := RUNNING, reserved_by := Some ''w1'',
                                       reserved_at := Some 200, started_at := Some 200\<rparr>))"
    by (simp add: claim_job_def claimable_def order_by_def first_def Let_def job_A_def job_B_def)
  with job(3,4) have "job_id job = 2" by (auto simp: job_A_def job_B_def)
  with job(2) unchanged have "claim_dryrun True ''gpu'' [job_A, job_B] =
      (Inr (Available 2), [job_A, job_B])"
    by (simp add: prod_eq_iff)
  with some show ?thesis by blast
qed

section \<open>Reports of a worker\<close>

text \<open>
  C6. A done, fail or heartbeat call for an existing job whose \<open>reserved_by\<close> is not
  the calling worker is answered with 403, and the table is left as it was.
\<close>

theorem report_of_other_worker_forbidden:
  assumes "query_get db i = Some job" and "reserved_by job \<noteq> Some worker_id"
  shows "mark_done now i worker_id body_result_json db = (Inl HTTP_403_FORBIDDEN, db)
       \<and> mark_fail now i worker_id body_error_message db = (Inl HTTP_403_FORBIDDEN, db)
       \<and> job_heartbeat now i worker_id db = (Inl HTTP_403_FORBIDDEN, db)"
  using assms by (simp add: mark_done_def mark_fail_def job_heartbeat_def)

theorem report_of_other_worker_forbidden_witness:
  "query_get [job_A_running, job_B] 1 = Some job_A_running
   \<and> reserved_by job_A_running \<noteq> Some ''w2''
   \<and> mark_done 500 1 ''w2'' [(''url'', ''s3://out'')] [job_A_running, job_B] =
       (Inl HTTP_403_FORBIDDEN, [job_A_running, job_B])
   \<and> mark_fail 500 1 ''w2'' ''boom'' [job_A_running, job_B] =
       (Inl HTTP_403_FORBIDDEN, [job_A_running, job_B])
   \<and> job_heartbeat 500 1 ''w2'' [job_A_running, job_B] =
       (Inl HTTP_403_FORBIDDEN, [job_A_running, job_B])"
proof -
  have found: "query_get [job_A_running, job_B] 1 = Some job_A_running"
    by (simp add: query_get_def job_A_running_def job_A_def)
  have other: "reserved_by job_A_running \<noteq> Some ''w2''"
    by (simp add: job_A_running_def)
  from report_of_other_worker_forbidden[OF found other, of 500 "[(''url'', ''s3://out'')]" "''boom''"]
    found other
  show ?thesis by blast
qed

text \<open>
  C2, as the service reports a failure. For a running job and the worker that holds
  it, \<open>update_job_status\<close> with \<open>FAILED\<close> increments \<open>retries\<close> and then compares: when
  the incremented count is below 3 the job is queued again with \<open>reserved_by\<close> and
  \<open>reserved_at\<close> cleared, and when it has reached 3 the job is failed with
  \<open>completed_at\<close> set. A non-empty error message is stored in both cases.
\<close>

theorem update_job_status_fail_report:
  assumes "query_get db i = Some job" and "status job = RUNNING"
    and "reserved_by job = Some worker_id"
  shows "\<exists>job'. update_job_status now i FAILED worker_id result_data error_msg db =
                  (True, commit db job')
           \<and> query_get (commit db job') i = Some job'
           \<and> retries job' = retries job + 1
           \<and> (if retries job + 1 < 3
               then status job' = QUEUED \<and> reserved_by job' = None \<and> reserved_at job' = None
               else status job' = FAILED \<and> completed_at job' = Some now)
           \<and> (if truthy error_msg then error_message job' = error_msg
               else error_message job' = error_message job)"
proof -
  have valid: "is_valid_status_transition RUNNING FAILED"
    by (simp add: is_valid_status_transition_def)
  show ?thesis
  proof (cases "retries job + 1 < 3")
    case True
    let ?job' = "(if truthy error_msg
                  then job\<lparr>status := FAILED, updated_at := now, completed_at := Some now,
                           error_message := error_msg\<rparr>
                  else job\<lparr>status := FAILED, updated_at := now, completed_at := Some now\<rparr>)
                 \<lparr>retries := retries job + 1, status := QUEUED,
                  reserved_by := None, reserved_at := None\<rparr>"
    have "update_job_status now i FAILED worker_id result_data error_msg db =
            (True, commit db ?job')"
      using assms valid True by (simp add: update_job_status_def update_job_def Let_def)
    moreover have "query_get (commit db ?job') i = Some ?job'"
      using query_get_commit[OF assms(1), of ?job'] by simp
    ultimately show ?thesis using True by (intro exI[of _ ?job']) simp
  next
    case False
    let ?job' = "(if truthy error_msg
                  then job\<lparr>status := FAILED, updated_at := now, completed_at := Some now,
                           error_message := error_msg\<rparr>
                  else job\<lparr>status := FAILED, updated_at := now, completed_at := Some now\<rparr>)
                 \<lparr>retries := retries job + 1, status := FAILED\<rparr>"
    have "update_job_status now i FAILED worker_id result_data error_msg db =
            (True, commit db ?job')"
      using assms valid False by (simp add: update_job_status_def update_job_def Let_def)
    moreover have "query_get (commit db ?job') i = Some ?job'"
      using query_get_commit[OF assms(1), of ?job'] by simp
    ultimately show ?thesis using False by (intro exI[of _ ?job']) simp
  qed
qed

text \<open>A first failure of job A, held by \<open>w1\<close>: queued again with one retry.\<close>

theorem update_job_status_fail_report_witness:
  "query_get [job_A_running] 1 = Some job_A_running
   \<and> status job_A_running = RUNNING
   \<and> reserved_by job_A_running = Some ''w1''
   \<and> (\<exists>job'. update_job_status 500 1 FAILED ''w1'' None (Some ''boom'') [job_A_running] =
                (True, commit [job_A_running] job')
         \<and> status job' = QUEUED \<and> retries job' = 1 \<and> reserved_by job' = None
         \<and> error_message job' = Some ''boom'')"
proof -
  have found: "query_get [job_A_running] 1 = Some job_A_running"
    by (simp add: query_get_def job_A_running_def job_A_def)
  have running: "status job_A_running = RUNNING"
    by (simp add: job_A_running_def)
  have held: "reserved_by job_A_running = Some ''w1''"
    by (simp add: job_A_running_def)
  have zero: "retries job_A_running = 0"
    by (simp add: job_A_running_def job_A_def)
  from update_job_status_fail_report[OF found running held, of 500 None "Some ''boom''"]
  obtain job' where "update_job_status 500 1 FAILED ''w1'' None (Some ''boom'') [job_A_running] =
                (True, commit [job_A_running] job')"
     "retries job' = retries job_A_running + 1"
     "if retries job_A_running + 1 < 3
      then status job' = QUEUED \<and> reserved_by job' = None \<and> reserved_at job' = None
      else status job' = FAILED \<and> completed_at job' = Some 500"
     "if truthy (Some ''boom'') then error_message job' = Some ''boom''
      else error_message job' = error_message job_A_running"
    by blast
  with zero have "\<exists>job'. update_job_status 500 1 FAILED ''w1'' None (Some ''boom'') [job_A_running] =
                (True, commit [job_A_running] job')
         \<and> status job' = QUEUED \<and> retries job' = 1 \<and> reserved_by job' = None
         \<and> error_message job' = Some ''boom''"
    by (intro exI[of _ job']) (simp add: truthy_def)
  with found running held show ?thesis by blast
qed

text \<open>C2 as written, that a job whose \<open>retries\<close> is below 3 is queued again, fails
  at \<open>retries = 2\<close>: the third failure is final.\<close>

theorem update_job_status_third_failure:
  "update_job_status 500 1 FAILED ''w1'' None (Some ''boom'') [job_A_running\<lparr>retries := 2\<rparr>] =
     (True, [job_A_running\<lparr>retries := 3, status := FAILED, updated_at := 500,
                            completed_at := Some 500, error_message := Some ''boom''\<rparr>])"
  by (simp add: update_job_status_def update_job_def query_get_def commit_def
        is_valid_status_transition_def truthy_def Let_def job_A_running_def job_A_def)

text \<open>The endpoint \<open>mark_fail\<close> has no retry rule of its own: for the worker that holds
  the job it stores the failure and increments \<open>retries\<close>, whatever the count.\<close>

lemma mark_fail_report:
  assumes "query_get db i = Some job" and "reserved_by job = Some worker_id"
  shows "mark_fail now i worker_id body_error_message db =
           (Inr HTTP_204_NO_CONTENT,
            commit db (job\<lparr>status := FAILED, error_message := Some body_error_message,
                            completed_at := Some now, retries := retries job + 1\<rparr>))"
  using assms by (simp add: mark_fail_def)

section \<open>Liveness sweep\<close>

text \<open>What the sweep selects and does: a row is recovered exactly when it is running
  and its \<open>reserved_at\<close> is older than the threshold; the count returned is the number
  of such rows.\<close>

lemma requeue_stuck_jobs_selects:
  "fst (requeue_stuck_jobs now timeout_minutes db) =
     int (length (filter (stuck (now - 60 * timeout_minutes)) db))
   \<and> list_all2 (\<lambda>j j'. j' = (if status j = RUNNING \<and>
                                 (\<exists>t. reserved_at j = Some t \<and> t < now - 60 * timeout_minutes)
                              then requeue now j else j))
       db (snd (requeue_stuck_jobs now timeout_minutes db))"
  by (auto simp: requeue_stuck_jobs_def Let_def list_all2_map2 list_all2_same stuck_def
           split: option.splits)

text \<open>
  C1. Worker \<open>w1\<close> reserved job A at time 0 and sends a heartbeat at time 3600, which
  is accepted and sets \<open>updated_at\<close> to 3600. A sweep at that same moment with a
  timeout of 30 minutes still takes the job away from it: the sweep compares
  \<open>reserved_at\<close>, which no heartbeat moves.
\<close>

theorem requeue_stuck_jobs_after_heartbeat:
  "job_heartbeat 3600 1 ''w1'' [job_A_running] =
     (Inr HTTP_204_NO_CONTENT, [job_A_running\<lparr>updated_at := 3600\<rparr>])
   \<and> requeue_stuck_jobs 3600 30 [job_A_running\<lparr>updated_at := 3600\<rparr>] =
     (1, [job_A_running\<lparr>status := QUEUED, reserved_by := None, reserved_at := None,
                         retries := 1, updated_at := 3600\<rparr>])"
  by (simp add: job_heartbeat_def requeue_stuck_jobs_def query_get_def commit_def stuck_def
        requeue_def Let_def job_A_running_def job_A_def)

section \<open>Invariants of the job store\<close>

text \<open>
  Every operation changes the rows one at a time, each in one of seven ways. A relation
  between a row before and after that is reflexive and holds for these seven holds
  between the table before and after any operation, row by row.
\<close>

lemma run_rows:
  assumes pk: "distinct (map job_id db)"
    and unchanged: "\<And>j. R j j"
    and claimed: "\<And>j w. status j = QUEUED \<Longrightarrow>
        R j (j\<lparr>status := RUNNING, reserved_by := Some w, reserved_at := Some now,
               started_at := Some now\<rparr>)"
    and completed: "\<And>i j w r. op = Done i w r \<Longrightarrow> reserved_by j = Some w \<Longrightarrow>
        R j (j\<lparr>status := COMPLETED, result_json := Some r, error_message := None,
               completed_at := Some now\<rparr>)"
    and failure: "\<And>i j w e. op = Fail i w e \<Longrightarrow> reserved_by j = Some w \<Longrightarrow>
        R j (j\<lparr>status := FAILED, error_message := Some e, completed_at := Some now,
               retries := retries j + 1\<rparr>)"
    and heartbeat: "\<And>j w. reserved_by j = Some w \<Longrightarrow> R j (j\<lparr>updated_at := now\<rparr>)"
    and updated: "\<And>j w st r e. reserved_by j = Some w \<Longrightarrow>
        is_valid_status_transition (status j) st \<Longrightarrow> R j (update_job now st r e j)"
    and swept: "\<And>j. status j = RUNNING \<Longrightarrow> R j (requeue now j)"
  shows "list_all2 R db (run has_target JobKind now op db)"
proof (cases op)
  case (Claim w tgt)
  show ?thesis
  proof (cases "first (order_by (filter (claimable has_target tgt) db))")
    case None
    with Claim unchanged show ?thesis by (simp add: claim_job_def list_all2_same)
  next
    case (Some job)
    with select_first[where P = "claimable has_target tgt" and db = db]
    have "job \<in> set db" and "status job = QUEUED" by (auto simp: claimable_def)
    with Claim Some pk unchanged claimed show ?thesis
      by (auto simp: claim_job_def Let_def intro!: commit_rows[where job = job])
  qed
next
  case (Done i w r)
  show ?thesis
  proof (cases "query_get db i")
    case None
    with Done unchanged show ?thesis by (simp add: mark_done_def list_all2_same)
  next
    case (Some job)
    with query_get_Some have "job \<in> set db" by blast
    with Done Some pk unchanged completed[OF Done, of job] show ?thesis
      by (auto simp: mark_done_def list_all2_same intro!: commit_rows[where job = job])
  qed
next
  case (Fail i w e)
  show ?thesis
  proof (cases "query_get db i")
    case None
    with Fail unchanged show ?thesis by (simp add: mark_fail_def list_all2_same)
  next
    case (Some job)
    with query_get_Some have "job \<in> set db" by blast
    with Fail Some pk unchanged failure[OF Fail, of job] show ?thesis
      by (auto simp: mark_fail_def list_all2_same intro!: commit_rows[where job = job])
  qed
next
  case (ClaimDryrun tgt)
  with unchanged show ?thesis
    by (simp add: claim_dryrun_def list_all2_same split: option.splits)
next
  case (Heartbeat i w)
  show ?thesis
  proof (cases "query_get db i")
    case None
    with Heartbeat unchanged show ?thesis by (simp add: job_heartbeat_def list_all2_same)
  next
    case (Some job)
    with query_get_Some have "job \<in> set db" by blast
    with Heartbeat Some pk unchanged heartbeat show ?thesis
      by (auto simp: job_heartbeat_def list_all2_same intro!: commit_rows[where job = job])
  qed
next
  case (ServiceClaim w job_kinds)
  with unchanged show ?thesis
    by (simp add: JobOrchestrationService_claim_job_def Let_def list_all2_same
             split: option.splits)
next
  case (UpdateStatus i st w r e)
  show ?thesis
  proof (cases "query_get db i")
    case None
    with UpdateStatus unchanged show ?thesis
      by (simp add: update_job_status_def list_all2_same)
  next
    case (Some job)
    with query_get_Some have in_db: "job \<in> set db" by blast
    have same_id: "job_id (update_job now st r e job) = job_id job"
      by (simp add: update_job_def Let_def)
    from UpdateStatus Some pk unchanged updated[of job w st r e] in_db same_id show ?thesis
      by (auto simp: update_job_status_def list_all2_same intro!: commit_rows[where job = job])
  qed
next
  case (Sweep m)
  with unchanged swept show ?thesis
    by (auto simp: requeue_stuck_jobs_def Let_def list_all2_map2 list_all2_same stuck_def)
qed






text \<open>
  C7, as far as the code goes. Under every operation each row keeps its id; a row for
  which "running implies reserved" held still satisfies it afterwards; and a row that
  goes from running to queued has \<open>reserved_by\<close> and \<open>reserved_at\<close> cleared.
\<close>

theorem running_stays_reserved_requeue_clears:
  assumes "distinct (map job_id db)"
  shows "list_all2 (\<lambda>j j'. job_id j' = job_id j
                        \<and> ((status j = RUNNING \<longrightarrow> reserved_by j \<noteq> None) \<longrightarrow>
                            (status j' = RUNNING \<longrightarrow> reserved_by j' \<noteq> None))
                        \<and> (status j = RUNNING \<and> status j' = QUEUED \<longrightarrow>
                             reserved_by j' = None \<and> reserved_at j' = None))
           db (run has_target JobKind now op db)"
proof (rule run_rows[OF assms])
  fix j :: Job and w st r e
  assume "reserved_by j = Some w" and "is_valid_status_transition (status j) st"
  then show "job_id (update_job now st r e j) = job_id j
      \<and> ((status j = RUNNING \<longrightarrow> reserved_by j \<noteq> None) \<longrightarrow>
          (status (update_job now st r e j) = RUNNING \<longrightarrow>
             reserved_by (update_job now st r e j) \<noteq> None))
      \<and> (status j = RUNNING \<and> status (update_job now st r e j) = QUEUED \<longrightarrow>
           reserved_by (update_job now st r e j) = None
           \<and> reserved_at (update_job now st r e j) = None)"
    by (cases "status j")
       (auto simp: update_job_def Let_def is_valid_status_transition_def)
next
  fix j :: Job
  assume "status j = RUNNING"
  then show "job_id (requeue now j) = job_id j
      \<and> ((status j = RUNNING \<longrightarrow> reserved_by j \<noteq> None) \<longrightarrow>
          (status (requeue now j) = RUNNING \<longrightarrow> reserved_by (requeue now j) \<noteq> None))
      \<and> (status j = RUNNING \<and> status (requeue now j) = QUEUED \<longrightarrow>
           reserved_by (requeue now j) = None \<and> reserved_at (requeue now j) = None)"
    by (simp add: requeue_def Let_def)
qed auto

theorem running_stays_reserved_requeue_clears_witness:
  "distinct (map job_id [job_A_running, job_B])
   \<and> list_all2 (\<lambda>j j'. job_id j' = job_id j
                        \<and> ((status j = RUNNING \<longrightarrow> reserved_by j \<noteq> None) \<longrightarrow>
                            (status j' = RUNNING \<longrightarrow> reserved_by j' \<noteq> None))
                        \<and> (status j = RUNNING \<and> status j' = QUEUED \<longrightarrow>
                             reserved_by j' = None \<and> reserved_at j' = None))
       [job_A_running, job_B]
       (run True [] 500 (UpdateStatus 1 FAILED ''w1'' None (Some ''boom'')) [job_A_running, job_B])"
proof -
  have pk: "distinct (map job_id [job_A_running, job_B])"
    by (simp add: job_A_running_def job_A_def job_B_def)
  from running_stays_reserved_requeue_clears[OF pk, of True "[]" 500
         "UpdateStatus 1 FAILED ''w1'' None (Some ''boom'')"] pk
  show ?thesis by blast
qed

text \<open>C7 as written fails on every report that ends a job: after \<open>mark_done\<close> job A
  is completed and still carries \<open>reserved_by = w1\<close>.\<close>

theorem mark_done_keeps_reserved_by:
  "mark_done 500 1 ''w1'' [(''url'', ''s3://out'')] [job_A_running] =
     (Inr HTTP_204_NO_CONTENT,
      [job_A_running\<lparr>status := COMPLETED, result_json := Some [(''url'', ''s3://out'')],
                     completed_at := Some 500\<rparr>])
   \<and> reserved_by (job_A_running\<lparr>status := COMPLETED,
                                 result_json := Some [(''url'', ''s3://out'')],
                                 completed_at := Some 500\<rparr>) = Some ''w1''"
  by (simp add: mark_done_def query_get_def commit_def job_A_running_def job_A_def)

section \<open>Fleet controller\<close>


lemma is_instance_running_answer:
  "fst (is_instance_running cfg vast i fl) = fst (is_instance_running cfg vast i fl')"
  by (simp add: is_instance_running_def Let_def split: option.splits http_result.splits)

lemma is_instance_running_True:
  "fst (is_instance_running cfg vast i fl) \<Longrightarrow>
   snd (is_instance_running cfg vast i fl) = send (GET_instance i) fl"
  by (simp add: is_instance_running_def Let_def split: option.splits http_result.splits if_splits)

lemma ensure_gpu_instance_healthy:
  assumes "active_instance_id fl = Some i" and "i \<noteq> []"
    and "fst (is_instance_running cfg vast i fl)"
  shows "ensure_gpu_instance cfg vast fl =
           (Some i, logger INFO ''vast_instance_already_running'' (send (GET_instance i) fl))"
proof -
  from assms(3) have "is_instance_running cfg vast i fl = (True, send (GET_instance i) fl)"
    using is_instance_running_True[OF assms(3)] by (simp add: prod_eq_iff)
  with assms(1,2) show ?thesis
    by (simp add: ensure_gpu_instance_def get_active_instance_id_def)
qed

text \<open>
  C9. While the recorded instance is observably running, \<open>ensure_gpu_instance\<close>
  returns its id, sends the status check and nothing else, and leaves the recorded id
  as it is; so does a second call right after. Below the idle threshold
  \<open>maybe_shutdown_gpu\<close> returns the state it was given: no request, no change.
\<close>

theorem ensure_gpu_instance_idempotent:
  "(active_instance_id fl = Some i \<and> i \<noteq> [] \<and> fst (is_instance_running cfg vast i fl) \<longrightarrow>
      fst (ensure_gpu_instance cfg vast fl) = Some i
      \<and> active_instance_id (snd (ensure_gpu_instance cfg vast fl)) = Some i
      \<and> requests (snd (ensure_gpu_instance cfg vast fl)) = requests fl @ [GET_instance i]
      \<and> fst (ensure_gpu_instance cfg vast (snd (ensure_gpu_instance cfg vast fl))) = Some i
      \<and> active_instance_id
           (snd (ensure_gpu_instance cfg vast (snd (ensure_gpu_instance cfg vast fl)))) = Some i
      \<and> requests (snd (ensure_gpu_instance cfg vast (snd (ensure_gpu_instance cfg vast fl)))) =
           requests fl @ [GET_instance i, GET_instance i])
   \<and> (idle_seconds < (if GPU_IDLE_TIMEOUT_SEC cfg \<noteq> 0 then GPU_IDLE_TIMEOUT_SEC cfg else 180) \<longrightarrow>
        maybe_shutdown_gpu cfg vast idle_seconds fl = fl)"
proof (intro conjI impI)
  assume h: "active_instance_id fl = Some i \<and> i \<noteq> [] \<and> fst (is_instance_running cfg vast i fl)"
  let ?fl1 = "logger INFO ''vast_instance_already_running'' (send (GET_instance i) fl)"
  let ?fl2 = "logger INFO ''vast_instance_already_running'' (send (GET_instance i) ?fl1)"
  from h have first: "ensure_gpu_instance cfg vast fl = (Some i, ?fl1)"
    by (simp add: ensure_gpu_instance_healthy)
  have active1: "active_instance_id ?fl1 = Some i"
    using h by (simp add: logger_def send_def)
  have "fst (is_instance_running cfg vast i ?fl1)"
    using h is_instance_running_answer[of cfg vast i ?fl1 fl] by simp
  with active1 h have second: "ensure_gpu_instance cfg vast ?fl1 = (Some i, ?fl2)"
    by (simp add: ensure_gpu_instance_healthy)
  show "fst (ensure_gpu_instance cfg vast fl) = Some i" using first by simp
  show "active_instance_id (snd (ensure_gpu_instance cfg vast fl)) = Some i"
    using first active1 by simp
  show "requests (snd (ensure_gpu_instance cfg vast fl)) = requests fl @ [GET_instance i]"
    using first by (simp add: logger_def send_def)
  show "fst (ensure_gpu_instance cfg vast (snd (ensure_gpu_instance cfg vast fl))) = Some i"
    using first second by simp
  show "active_instance_id
          (snd (ensure_gpu_instance cfg vast (snd (ensure_gpu_instance cfg vast fl)))) = Some i"
    using first second h by (simp add: logger_def send_def)
  show "requests (snd (ensure_gpu_instance cfg vast (snd (ensure_gpu_instance cfg vast fl)))) =
          requests fl @ [GET_instance i, GET_instance i]"
    using first second by (simp add: logger_def send_def)
next
  assume "idle_seconds < (if GPU_IDLE_TIMEOUT_SEC cfg \<noteq> 0 then GPU_IDLE_TIMEOUT_SEC cfg else 180)"
  then show "maybe_shutdown_gpu cfg vast idle_seconds fl = fl"
    by (cases "GPU_IDLE_TIMEOUT_SEC cfg = 0"; cases "active_instance_id fl")
       (simp_all add: maybe_shutdown_gpu_def get_active_instance_id_def)
qed

text \<open>Instance X is recorded and reported running: two calls ask for its status twice
  and create nothing; after 100 idle seconds, with a threshold of 180, nothing happens.\<close>

theorem ensure_gpu_instance_idempotent_witness:
  "active_instance_id fleet_X = Some ''X''
   \<and> fst (is_instance_running cfg0 vast_healthy ''X'' fleet_X)
   \<and> fst (ensure_gpu_instance cfg0 vast_healthy
            (snd (ensure_gpu_instance cfg0 vast_healthy fleet_X))) = Some ''X''
   \<and> active_instance_id (snd (ensure_gpu_instance cfg0 vast_healthy
            (snd (ensure_gpu_instance cfg0 vast_healthy fleet_X)))) = Some ''X''
   \<and> requests (snd (ensure_gpu_instance cfg0 vast_healthy
            (snd (ensure_gpu_instance cfg0 vast_healthy fleet_X)))) =
        [GET_instance ''X'', GET_instance ''X'']
   \<and> (100::int) < (if GPU_IDLE_TIMEOUT_SEC cfg0 \<noteq> 0 then GPU_IDLE_TIMEOUT_SEC cfg0 else 180)
   \<and> maybe_shutdown_gpu cfg0 vast_healthy 100 fleet_X = fleet_X"
proof -
  have recorded: "active_instance_id fleet_X = Some ''X''"
    by (simp add: fleet_X_def)
  have healthy: "fst (is_instance_running cfg0 vast_healthy ''X'' fleet_X)"
    by (simp add: is_instance_running_def headers_def cfg0_def Let_def por_def truthy_def
          str_def lower_def lower_char_def)
  have idle: "(100::int) < (if GPU_IDLE_TIMEOUT_SEC cfg0 \<noteq> 0 then GPU_IDLE_TIMEOUT_SEC cfg0 else 180)"
    by (simp add: cfg0_def)
  have none_sent: "requests fleet_X = []"
    by (simp add: fleet_X_def)
  from ensure_gpu_instance_idempotent[where fl = fleet_X and i = "''X''" and cfg = cfg0
      and vast = vast_healthy and idle_seconds = 100]
    recorded healthy idle none_sent
  show ?thesis by simp
qed







end
